theory Spec2Isabelle
  imports Main "HOL-Library.Word" "HOL-Library.Char_ord" "HOL-Library.List_Lexorder"
begin

section \<open>The HTTP layer of go-syncstorage (api/api.go)\<close>

subsection \<open>Requests, errors and the response writer\<close>

text \<open>
  Go's \<open>error\<close> values as far as this package sees them: the storage layer's
  \<open>ErrNotFound\<close> (named by the tests) and any other error, carrying its message.
\<close>

datatype error = ErrNotFound | ErrOther string

text \<open>
  An \<open>http.Request\<close> as the handlers read it: the method, the URL path, the request
  headers and the variables gorilla/mux extracted from the matched route templates
  (\<open>mux.Vars(r)\<close>).
\<close>

record Request =
  Method :: string
  Path :: string
  reqHeader :: "string \<rightharpoonup> string"
  vars :: "string \<rightharpoonup> string"

text \<open>
  An \<open>http.ResponseWriter\<close>. \<open>header\<close> is the live map returned by \<open>w.Header()\<close>;
  the first \<open>WriteHeader\<close> fixes the status code and sends a snapshot of the map
  (\<open>sent\<close>); later calls of \<open>WriteHeader\<close> are ignored and later changes of the map
  are not sent. \<open>Write\<close> sends the header with status 200 first when none was sent yet.
\<close>

record ResponseWriter =
  header :: "string \<rightharpoonup> string"
  wroteHeader :: bool
  code :: nat
  sent :: "string \<rightharpoonup> string"
  body :: string

definition NewRecorder :: ResponseWriter where
  "NewRecorder = \<lparr>header = Map.empty, wroteHeader = False, code = 200, sent = Map.empty, body = []\<rparr>"

definition Header_Set :: "ResponseWriter \<Rightarrow> string \<Rightarrow> string \<Rightarrow> ResponseWriter" where
  "Header_Set w k v = w\<lparr>header := (header w)(k \<mapsto> v)\<rparr>"

definition WriteHeader :: "ResponseWriter \<Rightarrow> nat \<Rightarrow> ResponseWriter" where
  "WriteHeader w c =
     (if wroteHeader w then w
      else w\<lparr>wroteHeader := True, code := c, sent := header w\<rparr>)"

definition Write :: "ResponseWriter \<Rightarrow> string \<Rightarrow> ResponseWriter" where
  "Write w s = (let w1 = WriteHeader w 200 in w1\<lparr>body := body w1 @ s\<rparr>)"

definition StatusOK :: nat where "StatusOK = 200"
definition StatusBadRequest :: nat where "StatusBadRequest = 400"
definition StatusNotFound :: nat where "StatusNotFound = 404"
definition StatusInternalServerError :: nat where "StatusInternalServerError = 500"
definition StatusNotImplemented :: nat where "StatusNotImplemented = 501"

text \<open>\<open>http.StatusText\<close>, on the codes this package uses.\<close>

definition StatusText :: "nat \<Rightarrow> string" where
  "StatusText c =
     (if c = 200 then ''OK''
      else if c = 400 then ''Bad Request''
      else if c = 404 then ''Not Found''
      else if c = 500 then ''Internal Server Error''
      else if c = 501 then ''Not Implemented''
      else [])"

text \<open>
  \<open>http.Error(w, msg, code)\<close>: sets the two headers, writes the status and then the
  message with \<open>fmt.Fprintln\<close>, that is followed by a newline.
\<close>

definition http_Error :: "ResponseWriter \<Rightarrow> string \<Rightarrow> nat \<Rightarrow> ResponseWriter" where
  "http_Error w msg c =
     (let w1 = Header_Set w ''Content-Type'' ''text/plain; charset=utf-8'';
          w2 = Header_Set w1 ''X-Content-Type-Options'' ''nosniff'';
          w3 = WriteHeader w2 c
      in Write w3 (msg @ [CHR 0x0A]))"

subsection \<open>Dependencies and handlers\<close>

text \<open>
  \<open>Dependencies\<close> holds the \<open>Dispatch\<close>; of the storage package, which is outside this
  package, the handlers call \<open>InfoCollections\<close> and \<open>InfoCollectionUsage\<close>, each
  returning a value or an error. Their result types are left open.
\<close>

record ('a, 'b) Dependencies =
  InfoCollections :: "string \<Rightarrow> error + 'a"
  InfoCollectionUsage :: "string \<Rightarrow> error + 'b"

type_synonym ('a, 'b) syncHandler =
  "ResponseWriter \<Rightarrow> Request \<Rightarrow> ('a, 'b) Dependencies \<Rightarrow> string \<Rightarrow> ResponseWriter"

text \<open>
  \<open>makeSyncHandler\<close>: looks the uid up among the route variables; a missing uid writes
  the 400 error, and there is no return after it, so the handler is called in both
  cases, with Go's zero value (the empty string) for a missing uid.
\<close>

definition makeSyncHandler ::
  "('a, 'b) Dependencies \<Rightarrow> ('a, 'b) syncHandler \<Rightarrow> ResponseWriter \<Rightarrow> Request \<Rightarrow> ResponseWriter" where
  "makeSyncHandler d h w r =
     (let (uid, ok) = (case vars r ''uid'' of Some u \<Rightarrow> (u, True) | None \<Rightarrow> ([], False));
          w1 = (if \<not> ok then http_Error w ''UID missing'' StatusBadRequest else w)
      in h w1 r d uid)"

definition notImplemented :: "('a, 'b) syncHandler" where
  "notImplemented w r d uid = http_Error w ''Not implemented'' StatusNotImplemented"

definition okResponse :: "ResponseWriter \<Rightarrow> string \<Rightarrow> ResponseWriter" where
  "okResponse w s =
     (let w1 = Header_Set w ''Content-Type'' ''text/plain; charset=utf-8'';
          w2 = Header_Set w1 ''X-Content-Type-Options'' ''nosniff'';
          w3 = WriteHeader w2 StatusOK
      in Write w3 s)"

definition errorResponse ::
  "ResponseWriter \<Rightarrow> Request \<Rightarrow> ('a, 'b) Dependencies \<Rightarrow> error \<Rightarrow> ResponseWriter" where
  "errorResponse w r d err =
     http_Error w (StatusText StatusInternalServerError) StatusInternalServerError"

text \<open>
  \<open>jsonResponse\<close>; \<open>json.Marshal\<close> at the type of the value is the parameter
  \<open>marshal\<close>.
\<close>

definition jsonResponse ::
  "('v \<Rightarrow> error + string) \<Rightarrow> ResponseWriter \<Rightarrow> Request \<Rightarrow> ('a, 'b) Dependencies \<Rightarrow> 'v
     \<Rightarrow> ResponseWriter" where
  "jsonResponse marshal w r d val =
     (case marshal val of
        Inl err \<Rightarrow> errorResponse w r d err
      | Inr js \<Rightarrow> Write (Header_Set w ''Content-Type'' ''application/json'') js)"

definition handleUIDecho :: "('a, 'b) syncHandler" where
  "handleUIDecho w r d uid = okResponse w uid"

definition handleInfoCollections :: "('a \<Rightarrow> error + string) \<Rightarrow> ('a, 'b) syncHandler" where
  "handleInfoCollections marshal w r d uid =
     (case InfoCollections d uid of
        Inl err \<Rightarrow> errorResponse w r d err
      | Inr info \<Rightarrow> jsonResponse marshal w r d info)"

definition handleInfoCollectionUsage :: "('b \<Rightarrow> error + string) \<Rightarrow> ('a, 'b) syncHandler" where
  "handleInfoCollectionUsage marshal w r d uid =
     (case InfoCollectionUsage d uid of
        Inl err \<Rightarrow> errorResponse w r d err
      | Inr results \<Rightarrow> jsonResponse marshal w r d results)"

text \<open>
  \<open>http.NewRequest(method, url, nil)\<close> with the given headers, as the tests build it;
  the router fills in the route variables.
\<close>

definition NewRequest :: "string \<Rightarrow> string \<Rightarrow> (string \<rightharpoonup> string) \<Rightarrow> Request" where
  "NewRequest m p hs = \<lparr>Method = m, Path = p, reqHeader = hs, vars = Map.empty\<rparr>"

section \<open>The process (main)\<close>

text \<open>
  \<open>main\<close> fixes the number of pools and derives the cache size of each pool from
  \<open>config.MaxOpenFiles\<close>, a Go \<open>int\<close> of the configuration package: the value is
  converted to \<open>uint16\<close> (Go keeps the low 16 bits), divided by \<open>numPools\<close> in
  \<open>uint16\<close>, and the quotient converted back to \<open>int\<close>. Both values are the arguments
  of \<open>syncstorage.NewDispatch\<close>.
\<close>

definition numPools :: "16 word" where
  "numPools = 8"

definition cacheSize :: "int \<Rightarrow> int" where
  "cacheSize MaxOpenFiles = uint ((word_of_int MaxOpenFiles :: 16 word) div numPools)"

section \<open>The storage contract the HTTP tests rely on\<close>

text \<open>
  The storage package (\<open>syncstorage\<close>) and the request context with its handlers are
  not among the files at hand; the tests call them. What follows is written from the
  specification of that layer.
\<close>

subsection \<open>Decimal numbers\<close>

definition isDigit :: "char \<Rightarrow> bool" where
  "isDigit c = (c \<in> set ''0123456789'')"

definition digitChar :: "nat \<Rightarrow> char" where
  "digitChar d = ''0123456789'' ! (d mod 10)"

text \<open>Go's \<open>strconv.Itoa\<close> on a number that is not negative.\<close>

function showNat :: "nat \<Rightarrow> string" where
  "showNat n = (if n < 10 then [digitChar n] else showNat (n div 10) @ [digitChar (n mod 10)])"
  by pat_completeness auto
termination
  by (relation "measure id") auto

declare showNat.simps [simp del]

text \<open>Go's \<open>%d\<close> and \<open>%02d\<close>; the sign counts towards the width.\<close>

definition fmt_d :: "int \<Rightarrow> string" where
  "fmt_d i = (if i < 0 then CHR ''-'' # showNat (nat (- i)) else showNat (nat i))"

definition fmt_02d :: "int \<Rightarrow> string" where
  "fmt_02d i = (if 0 \<le> i \<and> i < 10 then CHR ''0'' # showNat (nat i) else fmt_d i)"

text \<open>Go's \<open>/\<close> and \<open>%\<close> on integers: the quotient is cut towards zero.\<close>

definition go_div :: "int \<Rightarrow> int \<Rightarrow> int" where
  "go_div a b = (if (a < 0) = (b < 0) then \<bar>a\<bar> div \<bar>b\<bar> else - (\<bar>a\<bar> div \<bar>b\<bar>))"

definition go_mod :: "int \<Rightarrow> int \<Rightarrow> int" where
  "go_mod a b = a - b * go_div a b"

text \<open>
  Modelled from the spec: \<open>syncstorage.ModifiedToString\<close>, which is not among the
  files; the specification gives it as \<open>fmt("%d.%02d", n/100, n%100)\<close>.
\<close>

definition ModifiedToString :: "int \<Rightarrow> string" where
  "ModifiedToString n = fmt_d (go_div n 100) @ ''.'' @ fmt_02d (go_mod n 100)"

subsection \<open>Records and queries\<close>

text \<open>
  Modelled from the spec: the BSO of the storage package, whose declaration is not among
  the files. \<open>Modified\<close> and \<open>TTL\<close> are in hundredths of a second; the sort index and
  the expiry may be absent.
\<close>

record BSO =
  Id :: string
  Modified :: int
  Payload :: string
  SortIndex :: "int option"
  TTL :: "int option"

datatype SortType = SortNewest | SortOldest | SortByIndex

text \<open>
  Modelled from the spec: expiry, part of the store, which is not among the files. A BSO
  whose \<open>ttl < now\<close> is expired: no query sees it, and it counts as not present.
\<close>

definition expired :: "int \<Rightarrow> BSO \<Rightarrow> bool" where
  "expired now b = (case TTL b of None \<Rightarrow> False | Some t \<Rightarrow> t < now)"

text \<open>
  Modelled from the spec: the three sort orders of the store's queries, which are not
  among the files, as "comes before or ties": newest is modified descending, oldest
  is modified ascending, both with the id ascending among equals; index is the sort index
  descending with absent ones last, then modified descending, then the id.
\<close>

definition newestFirst :: "BSO \<Rightarrow> BSO \<Rightarrow> bool" where
  "newestFirst a b = (Modified b < Modified a \<or> (Modified a = Modified b \<and> Id a \<le> Id b))"

definition oldestFirst :: "BSO \<Rightarrow> BSO \<Rightarrow> bool" where
  "oldestFirst a b = (Modified a < Modified b \<or> (Modified a = Modified b \<and> Id a \<le> Id b))"

definition indexFirst :: "BSO \<Rightarrow> BSO \<Rightarrow> bool" where
  "indexFirst a b =
     (case (SortIndex a, SortIndex b) of
        (Some i, Some j) \<Rightarrow> j < i \<or> (i = j \<and> newestFirst a b)
      | (Some i, None) \<Rightarrow> True
      | (None, Some j) \<Rightarrow> False
      | (None, None) \<Rightarrow> newestFirst a b)"

fun before :: "SortType \<Rightarrow> BSO \<Rightarrow> BSO \<Rightarrow> bool" where
  "before SortNewest a b = newestFirst a b"
| "before SortOldest a b = oldestFirst a b"
| "before SortByIndex a b = indexFirst a b"

fun insertBy :: "('a \<Rightarrow> 'a \<Rightarrow> bool) \<Rightarrow> 'a \<Rightarrow> 'a list \<Rightarrow> 'a list" where
  "insertBy le x [] = [x]"
| "insertBy le x (y # ys) = (if le x y then x # y # ys else y # insertBy le x ys)"

definition sortBy :: "('a \<Rightarrow> 'a \<Rightarrow> bool) \<Rightarrow> 'a list \<Rightarrow> 'a list" where
  "sortBy le xs = foldr (insertBy le) xs []"

text \<open>
  Modelled from the spec: the filters of the store's \<open>GetBSOs\<close>, which is not among the
  files, in the specification's order: expired rows out, the ids when given, newer
  (strictly greater modified), older (strictly less).
\<close>

definition postFilter ::
  "int \<Rightarrow> BSO list \<Rightarrow> string list option \<Rightarrow> int option \<Rightarrow> int option \<Rightarrow> BSO list" where
  "postFilter now rows ids older newer =
     (let f0 = filter (\<lambda>b. \<not> expired now b) rows;
          f1 = (case ids of None \<Rightarrow> f0 | Some is \<Rightarrow> filter (\<lambda>b. Id b \<in> set is) f0);
          f2 = (case newer of None \<Rightarrow> f1 | Some t \<Rightarrow> filter (\<lambda>b. t < Modified b) f1)
      in (case older of None \<Rightarrow> f2 | Some t \<Rightarrow> filter (\<lambda>b. Modified b < t) f2))"

text \<open>
  Modelled from the spec: the store's \<open>GetBSOs\<close>, which is not among the files. The rows
  are filtered and sorted, \<open>offset\<close> rows are skipped, and when \<open>limit > 0\<close> and more than
  \<open>limit\<close> rows are left, \<open>limit\<close> rows are returned with the next offset, the count of
  rows consumed so far.
\<close>

definition GetBSOs ::
  "int \<Rightarrow> BSO list \<Rightarrow> string list option \<Rightarrow> int option \<Rightarrow> int option \<Rightarrow> SortType \<Rightarrow> nat \<Rightarrow> nat
     \<Rightarrow> BSO list \<times> nat option" where
  "GetBSOs now rows ids older newer srt limit offset =
     (let page = drop offset (sortBy (before srt) (postFilter now rows ids older newer))
      in if 0 < limit \<and> limit < length page
         then (take limit page, Some (offset + limit))
         else (page, None))"

text \<open>
  Modelled from the spec: the cap of the request's limit by the server's
  \<open>MaxBSOGetLimit\<close>, part of the collection handler, which is not among the files. A
  request without a limit (0) gets the server's.
\<close>

definition effectiveLimit :: "nat \<Rightarrow> nat \<Rightarrow> nat" where
  "effectiveLimit MaxBSOGetLimit limit =
     (if limit = 0 \<or> MaxBSOGetLimit < limit then MaxBSOGetLimit else limit)"

fun joinWith :: "string \<Rightarrow> string list \<Rightarrow> string" where
  "joinWith sep [] = []"
| "joinWith sep [x] = x"
| "joinWith sep (x # y # ys) = x @ sep @ joinWith sep (y # ys)"

text \<open>
  A JSON array of already encoded values, and the encoding of a BSO id: an id is made of
  \<open>[A-Za-z0-9._-]\<close>, so nothing in it needs an escape.
\<close>

definition jsonArray :: "string list \<Rightarrow> string" where
  "jsonArray xs = ''['' @ joinWith '','' xs @ '']''"

definition jsonString :: "string \<Rightarrow> string" where
  "jsonString s = [CHR 0x22] @ s @ [CHR 0x22]"

text \<open>
  Modelled from the spec: the GET of a collection, which is not among the files. The
  body is the JSON array of the ids of the page, or of its full BSOs when the request has
  \<open>full\<close> (the encoding of one BSO, \<open>json.Marshal\<close> at its type, is the parameter
  \<open>marshalBSO\<close>); the response carries \<open>X-Weave-Next-Offset\<close> when more rows remain. The
  request's parameters come in parsed: their validation is not part of this.
\<close>

definition hCollectionGET ::
  "nat \<Rightarrow> (BSO \<Rightarrow> string) \<Rightarrow> bool \<Rightarrow> int \<Rightarrow> BSO list \<Rightarrow> string list option \<Rightarrow> int option
     \<Rightarrow> int option \<Rightarrow> SortType \<Rightarrow> nat \<Rightarrow> nat \<Rightarrow> ResponseWriter \<Rightarrow> ResponseWriter" where
  "hCollectionGET MaxBSOGetLimit marshalBSO full now rows ids older newer srt limit offset w =
     (case GetBSOs now rows ids older newer srt (effectiveLimit MaxBSOGetLimit limit) offset of
        (res, next) \<Rightarrow>
          (let w1 = (case next of
                       None \<Rightarrow> w
                     | Some n \<Rightarrow> Header_Set w ''X-Weave-Next-Offset'' (showNat n));
               w2 = Header_Set w1 ''Content-Type'' ''application/json''
           in Write w2
                (jsonArray (map (if full then marshalBSO else (\<lambda>b. jsonString (Id b))) res))))"

subsection \<open>Writes\<close>

text \<open>
  Modelled from the spec: the validation at the boundary of the store, which is not among
  the files: the id (1 to 64 characters of \<open>[A-Za-z0-9._-]\<close>), the payload size, the
  magnitude of the sort index and the sign of the ttl, in this order.
\<close>

definition MAX_BSO_PAYLOAD_SIZE :: nat where
  "MAX_BSO_PAYLOAD_SIZE = 262144"

definition bsoIdChar :: "char \<Rightarrow> bool" where
  "bsoIdChar c =
     ((CHR ''A'' \<le> c \<and> c \<le> CHR ''Z'') \<or> (CHR ''a'' \<le> c \<and> c \<le> CHR ''z'') \<or> isDigit c
      \<or> c = CHR ''.'' \<or> c = CHR ''_'' \<or> c = CHR ''-'')"

definition validBsoId :: "string \<Rightarrow> bool" where
  "validBsoId bid = (1 \<le> length bid \<and> length bid \<le> 64 \<and> list_all bsoIdChar bid)"

datatype storeError = ErrInvalidBSOID | ErrPayloadTooLarge | ErrInvalidSortIndex | ErrInvalidTTL

definition validateBSO ::
  "string \<Rightarrow> string option \<Rightarrow> int option \<Rightarrow> int option \<Rightarrow> storeError list" where
  "validateBSO bid payload sortindex ttl =
     (if validBsoId bid then [] else [ErrInvalidBSOID])
     @ (case payload of
          Some p \<Rightarrow> if length p \<le> MAX_BSO_PAYLOAD_SIZE then [] else [ErrPayloadTooLarge]
        | None \<Rightarrow> [])
     @ (case sortindex of
          Some i \<Rightarrow> if \<bar>i\<bar> \<le> 999999999 then [] else [ErrInvalidSortIndex]
        | None \<Rightarrow> [])
     @ (case ttl of Some t \<Rightarrow> if 0 \<le> t then [] else [ErrInvalidTTL] | None \<Rightarrow> [])"

text \<open>
  Modelled from the spec: the store's \<open>PutBSO\<close> on one collection, which is not among
  the files; its arguments are those of the tests' calls, an absent one being Go's
  \<open>nil\<close>. It creates the BSO or updates it: a field absent in the input is left as it
  is on update, a \<open>ttl\<close> given in seconds from now is stored as \<open>now + ttl * 100\<close>, and
  \<open>now\<close> becomes the modified time. An expired BSO counts as not present. The result is
  the error of the validation, or the collection after the write with the modified time.
\<close>

definition PutBSO ::
  "int \<Rightarrow> (string \<rightharpoonup> BSO) \<Rightarrow> string \<Rightarrow> string option \<Rightarrow> int option \<Rightarrow> int option
     \<Rightarrow> storeError list + ((string \<rightharpoonup> BSO) \<times> int)" where
  "PutBSO now col bid payload sortindex ttl =
     (case validateBSO bid payload sortindex ttl of
        e # es \<Rightarrow> Inl (e # es)
      | [] \<Rightarrow>
          (let old = (case col bid of
                        Some b \<Rightarrow> if expired now b then None else Some b
                      | None \<Rightarrow> None);
               b' = (case old of
                       None \<Rightarrow>
                         \<lparr>Id = bid, Modified = now,
                          Payload = (case payload of Some p \<Rightarrow> p | None \<Rightarrow> []),
                          SortIndex = sortindex,
                          TTL = map_option (\<lambda>t. now + t * 100) ttl\<rparr>
                     | Some b \<Rightarrow>
                         b\<lparr>Modified := now,
                           Payload := (case payload of Some p \<Rightarrow> p | None \<Rightarrow> Payload b),
                           SortIndex := (case sortindex of Some i \<Rightarrow> Some i | None \<Rightarrow> SortIndex b),
                           TTL := (case ttl of Some t \<Rightarrow> Some (now + t * 100) | None \<Rightarrow> TTL b)\<rparr>)
           in Inr (col(bid \<mapsto> b'), now)))"

record PutBSOInput =
  inId :: string
  inPayload :: "string option"
  inSortIndex :: "int option"
  inTTL :: "int option"

record PostResults =
  Success :: "string list"
  Failed :: "(string \<times> storeError list) list"

text \<open>
  Modelled from the spec: the store's \<open>PostBSOs\<close>, which is not among the files: a put of
  each input in turn with one timestamp; an input that fails its validation is recorded
  under its id and the others are written.
\<close>

fun PostBSOs ::
  "int \<Rightarrow> (string \<rightharpoonup> BSO) \<Rightarrow> PutBSOInput list \<Rightarrow> (string \<rightharpoonup> BSO) \<times> PostResults" where
  "PostBSOs now col [] = (col, \<lparr>Success = [], Failed = []\<rparr>)"
| "PostBSOs now col (i # rest) =
     (case PutBSO now col (inId i) (inPayload i) (inSortIndex i) (inTTL i) of
        Inl es \<Rightarrow>
          (case PostBSOs now col rest of
             (col', res) \<Rightarrow> (col', res\<lparr>Failed := (inId i, es) # Failed res\<rparr>))
      | Inr (col1, m) \<Rightarrow>
          (case PostBSOs now col1 rest of
             (col', res) \<Rightarrow> (col', res\<lparr>Success := inId i # Success res\<rparr>)))"

section \<open>Concrete dependencies and stores\<close>

text \<open>
  A \<open>Dispatch\<close> whose two calls fail, the first with \<open>ErrNotFound\<close>, the second with
  another error.
\<close>

definition d0 :: "(unit, unit) Dependencies" where
  "d0 = \<lparr>InfoCollections = (\<lambda>u. Inl ErrNotFound), InfoCollectionUsage = (\<lambda>u. Inl (ErrOther ''disk''))\<rparr>"

text \<open>
  The five BSOs of \<open>TestContextCollectionGET\<close>, \<open>bid_0\<close> to \<open>bid_4\<close>, written one after
  the other with the sort index equal to the number, each later than the one before.
\<close>

definition mkBSO :: "string \<Rightarrow> int \<Rightarrow> int \<Rightarrow> BSO" where
  "mkBSO i m si = \<lparr>Id = i, Modified = m, Payload = ''some data'', SortIndex = Some si, TTL = None\<rparr>"

definition fiveBSOs :: "BSO list" where
  "fiveBSOs = [mkBSO ''bid_0'' 145678900000 0, mkBSO ''bid_1'' 145678900002 1,
               mkBSO ''bid_2'' 145678900004 2, mkBSO ''bid_3'' 145678900006 3,
               mkBSO ''bid_4'' 145678900008 4]"

text \<open>
  An encoding of the BSOs of that test, which need no escape in id and payload: the
  fields the tests' \<open>jsonBSO\<close> reads, the modified time in seconds.
\<close>

definition marshalTestBSO :: "BSO \<Rightarrow> string" where
  "marshalTestBSO b =
     [CHR ''{''] @ jsonString ''id'' @ '':'' @ jsonString (Id b)
     @ '','' @ jsonString ''modified'' @ '':'' @ ModifiedToString (Modified b)
     @ '','' @ jsonString ''payload'' @ '':'' @ jsonString (Payload b)
     @ '','' @ jsonString ''sortindex'' @ '':''
     @ (case SortIndex b of None \<Rightarrow> ''null'' | Some i \<Rightarrow> fmt_d i) @ [CHR ''}'']"

text \<open>
  The collection of \<open>TestContextCollectionPOST\<close> after its first POST, and the inputs of
  its second one.
\<close>

definition initialBSO :: "string \<Rightarrow> BSO" where
  "initialBSO bid = \<lparr>Id = bid, Modified = 145678900000, Payload = ''initial payload'',
                     SortIndex = Some 1, TTL = Some (145678900000 + 2100000 * 100)\<rparr>"

definition bookmarks :: "string \<rightharpoonup> BSO" where
  "bookmarks = [''bso1'' \<mapsto> initialBSO ''bso1'', ''bso2'' \<mapsto> initialBSO ''bso2'',
                ''bso3'' \<mapsto> initialBSO ''bso3'']"

definition updates :: "PutBSOInput list" where
  "updates =
     [\<lparr>inId = ''bso1'', inPayload = None, inSortIndex = Some 2, inTTL = None\<rparr>,
      \<lparr>inId = ''bso2'', inPayload = Some ''updated payload'', inSortIndex = None, inTTL = None\<rparr>,
      \<lparr>inId = ''bso3'', inPayload = Some ''updated payload'', inSortIndex = Some 3, inTTL = None\<rparr>]"

section \<open>The handlers of api.go\<close>

lemma http_Error_fresh:
  "\<not> wroteHeader w \<Longrightarrow>
     http_Error w msg c =
       w\<lparr>header := (header w)(''Content-Type'' \<mapsto> ''text/plain; charset=utf-8'',
                                ''X-Content-Type-Options'' \<mapsto> ''nosniff''),
         wroteHeader := True, code := c,
         sent := (header w)(''Content-Type'' \<mapsto> ''text/plain; charset=utf-8'',
                            ''X-Content-Type-Options'' \<mapsto> ''nosniff''),
         body := body w @ msg @ [CHR 0x0A]\<rparr>"
  by (simp add: http_Error_def Header_Set_def WriteHeader_def Write_def Let_def)

text \<open>
  C9. When the route variables hold no \<open>uid\<close>, \<open>makeSyncHandler\<close> writes the 400
  \<open>UID missing\<close> error and then still calls the inner handler, with the empty string as
  uid and on the writer the error went to; when they hold one, it calls the inner handler
  with it on the untouched writer. Either way the result is that of exactly one call of
  the inner handler.
\<close>

theorem makeSyncHandler_calls_handler_once:
  "(vars r ''uid'' = None \<longrightarrow>
      makeSyncHandler d h w r = h (http_Error w ''UID missing'' StatusBadRequest) r d [])
   \<and> (vars r ''uid'' = Some u \<longrightarrow> makeSyncHandler d h w r = h w r d u)
   \<and> (\<not> wroteHeader w \<longrightarrow>
        wroteHeader (http_Error w ''UID missing'' StatusBadRequest)
        \<and> code (http_Error w ''UID missing'' StatusBadRequest) = 400
        \<and> body (http_Error w ''UID missing'' StatusBadRequest) = body w @ ''UID missing'' @ [CHR 0x0A])"
  by (simp add: makeSyncHandler_def http_Error_fresh StatusBadRequest_def)

theorem makeSyncHandler_calls_handler_once_witness:
  "vars (NewRequest ''DELETE'' ''/'' Map.empty) ''uid'' = None
   \<and> makeSyncHandler d0 notImplemented NewRecorder (NewRequest ''DELETE'' ''/'' Map.empty)
       = notImplemented (http_Error NewRecorder ''UID missing'' StatusBadRequest)
           (NewRequest ''DELETE'' ''/'' Map.empty) d0 []
   \<and> vars ((NewRequest ''GET'' ''/1.5/123456/echo-uid'' Map.empty)\<lparr>vars := [''uid'' \<mapsto> ''123456'']\<rparr>) ''uid''
       = Some ''123456''
   \<and> makeSyncHandler d0 handleUIDecho NewRecorder
        ((NewRequest ''GET'' ''/1.5/123456/echo-uid'' Map.empty)\<lparr>vars := [''uid'' \<mapsto> ''123456'']\<rparr>)
       = handleUIDecho NewRecorder
           ((NewRequest ''GET'' ''/1.5/123456/echo-uid'' Map.empty)\<lparr>vars := [''uid'' \<mapsto> ''123456'']\<rparr>)
           d0 ''123456''
   \<and> \<not> wroteHeader NewRecorder
   \<and> code (http_Error NewRecorder ''UID missing'' StatusBadRequest) = 400
   \<and> body (makeSyncHandler d0 notImplemented NewRecorder (NewRequest ''DELETE'' ''/'' Map.empty))
       = ''UID missing'' @ [CHR 0x0A] @ ''Not implemented'' @ [CHR 0x0A]
   \<and> code (makeSyncHandler d0 notImplemented NewRecorder (NewRequest ''DELETE'' ''/'' Map.empty)) = 400"
  using makeSyncHandler_calls_handler_once
          [where r = "NewRequest ''DELETE'' ''/'' Map.empty" and d = d0 and h = notImplemented
             and w = NewRecorder and u = "''123456''"]
        makeSyncHandler_calls_handler_once
          [where r = "(NewRequest ''GET'' ''/1.5/123456/echo-uid'' Map.empty)\<lparr>vars := [''uid'' \<mapsto> ''123456'']\<rparr>"
             and u = "''123456''" and d = d0 and h = handleUIDecho and w = NewRecorder]
  by (simp add: NewRequest_def NewRecorder_def notImplemented_def http_Error_def Header_Set_def
        WriteHeader_def Write_def Let_def StatusBadRequest_def StatusNotImplemented_def)

text \<open>
  C10. Whatever error \<open>Dispatch.InfoCollections\<close> or \<open>Dispatch.InfoCollectionUsage\<close>
  returns, \<open>ErrNotFound\<close> included, the info handler answers through \<open>errorResponse\<close>:
  status 500 and the generic text \<open>Internal Server Error\<close> (which \<open>http.Error\<close> ends
  with a newline) as plain text; the error itself has no part in the response.
\<close>

theorem info_handlers_answer_500_for_every_error:
  "(InfoCollections d uid = Inl e \<longrightarrow>
      handleInfoCollections mA w r d uid = http_Error w ''Internal Server Error'' 500)
   \<and> (InfoCollectionUsage d uid = Inl e \<longrightarrow>
      handleInfoCollectionUsage mB w r d uid = http_Error w ''Internal Server Error'' 500)
   \<and> (\<not> wroteHeader w \<longrightarrow>
        code (http_Error w ''Internal Server Error'' 500) = 500
        \<and> body (http_Error w ''Internal Server Error'' 500)
            = body w @ ''Internal Server Error'' @ [CHR 0x0A]
        \<and> sent (http_Error w ''Internal Server Error'' 500) ''Content-Type''
            = Some ''text/plain; charset=utf-8'')"
  by (simp add: handleInfoCollections_def handleInfoCollectionUsage_def errorResponse_def
        StatusText_def StatusInternalServerError_def http_Error_fresh)

theorem info_handlers_answer_500_for_every_error_witness:
  "InfoCollections d0 ''123456'' = Inl ErrNotFound
   \<and> InfoCollectionUsage d0 ''123456'' = Inl (ErrOther ''disk'')
   \<and> \<not> wroteHeader NewRecorder
   \<and> code (handleInfoCollections (\<lambda>x. Inr ''{}'') NewRecorder (NewRequest ''GET'' ''/1.5/123456/info/collections'' Map.empty) d0 ''123456'') = 500
   \<and> body (handleInfoCollections (\<lambda>x. Inr ''{}'') NewRecorder (NewRequest ''GET'' ''/1.5/123456/info/collections'' Map.empty) d0 ''123456'')
       = ''Internal Server Error'' @ [CHR 0x0A]
   \<and> handleInfoCollectionUsage (\<lambda>x. Inr ''{}'') NewRecorder (NewRequest ''GET'' ''/1.5/123456/info/collection_usage'' Map.empty) d0 ''123456''
       = handleInfoCollections (\<lambda>x. Inr ''{}'') NewRecorder (NewRequest ''GET'' ''/1.5/123456/info/collections'' Map.empty) d0 ''123456''"
  using info_handlers_answer_500_for_every_error
          [where d = d0 and uid = "''123456''" and e = ErrNotFound and mA = "\<lambda>x. Inr ''{}''"
             and mB = "\<lambda>x. Inr ''{}''" and w = NewRecorder
             and r = "NewRequest ''GET'' ''/1.5/123456/info/collections'' Map.empty"]
        info_handlers_answer_500_for_every_error
          [where d = d0 and uid = "''123456''" and e = "ErrOther ''disk''" and mA = "\<lambda>x. Inr ''{}''"
             and mB = "\<lambda>x. Inr ''{}''" and w = NewRecorder
             and r = "NewRequest ''GET'' ''/1.5/123456/info/collection_usage'' Map.empty"]
  by (simp add: d0_def NewRecorder_def)

section \<open>The cache size of a pool\<close>

lemma cacheSize_in_range:
  "0 \<le> m \<Longrightarrow> m < 65536 \<Longrightarrow> cacheSize m = m div 8"
  by (simp add: cacheSize_def numPools_def uint_div uint_word_of_int)

text \<open>
  C7. The process builds 8 pools and is to give each the configured \<open>maxOpenFiles\<close>
  divided by the number of pools. The division is done after the conversion to
  \<open>uint16\<close>: with \<open>MaxOpenFiles = 65536\<close> the cache size is 0, not 8192, while 65535
  still gives 8191.
\<close>

theorem cacheSize_wraps_at_65536:
  "cacheSize 65536 = 0 \<and> 65536 div uint numPools = (8192 :: int) \<and> cacheSize 65535 = 8191"
  by (simp add: cacheSize_def numPools_def)

section \<open>Reading a collection\<close>

lemma length_insertBy: "length (insertBy le x xs) = Suc (length xs)"
  by (induction xs) simp_all

lemma length_sortBy: "length (sortBy le xs) = length xs"
  unfolding sortBy_def by (induction xs) (simp_all add: length_insertBy)

lemma effectiveLimit_le: "0 < m \<Longrightarrow> 0 < effectiveLimit m l \<and> effectiveLimit m l \<le> m"
  by (simp add: effectiveLimit_def)

lemma sortBy_newest_fiveBSOs:
  "sortBy (before SortNewest) fiveBSOs
     = [mkBSO ''bid_4'' 145678900008 4, mkBSO ''bid_3'' 145678900006 3,
        mkBSO ''bid_2'' 145678900004 2, mkBSO ''bid_1'' 145678900002 1,
        mkBSO ''bid_0'' 145678900000 0]"
  by (simp add: sortBy_def fiveBSOs_def mkBSO_def newestFirst_def)

lemma postFilter_fiveBSOs: "postFilter 145678900100 fiveBSOs None None None = fiveBSOs"
  by (simp add: postFilter_def fiveBSOs_def mkBSO_def expired_def)

lemma length_fiveBSOs: "length fiveBSOs = 5"
  by (simp add: fiveBSOs_def)

lemma showNat_4: "showNat 4 = ''4''" "showNat (Suc (Suc (Suc (Suc 0)))) = ''4''"
  by (simp_all add: showNat.simps digitChar_def)

lemma Id_mkBSO: "Id (mkBSO i m si) = i"
  by (simp add: mkBSO_def)

lemma marshalTestBSO_four:
  \<open>marshalTestBSO (mkBSO ''bid_4'' 145678900008 4)
     = ''{"id":"bid_4","modified":1456789000.08,"payload":"some data","sortindex":4}''\<close>
  \<open>marshalTestBSO (mkBSO ''bid_3'' 145678900006 3)
     = ''{"id":"bid_3","modified":1456789000.06,"payload":"some data","sortindex":3}''\<close>
  \<open>marshalTestBSO (mkBSO ''bid_2'' 145678900004 2)
     = ''{"id":"bid_2","modified":1456789000.04,"payload":"some data","sortindex":2}''\<close>
  \<open>marshalTestBSO (mkBSO ''bid_1'' 145678900002 1)
     = ''{"id":"bid_1","modified":1456789000.02,"payload":"some data","sortindex":1}''\<close>
  by (simp_all add: marshalTestBSO_def mkBSO_def jsonString_def ModifiedToString_def go_div_def
        go_mod_def fmt_d_def fmt_02d_def showNat.simps digitChar_def)

text \<open>
  C4. When the server's \<open>MaxBSOGetLimit\<close> is set (greater than 0) and smaller than the
  number of rows that pass the filters and are left at the request's offset, the GET of
  a collection answers 200 with the first rows of the sorted page, as many as the capped
  limit says and at most \<open>MaxBSOGetLimit\<close>, as ids or, with \<open>full\<close>, as full BSOs, and
  the response carries \<open>X-Weave-Next-Offset\<close> with the count of the rows consumed so
  far, the offset plus the items returned. With \<open>MaxBSOGetLimit = 4\<close> and the five BSOs
  \<open>bid_0\<close> to \<open>bid_4\<close>, \<open>sort=newest\<close> returns \<open>bid_4\<close> to \<open>bid_1\<close> and the next
  offset 4, with and without \<open>full\<close>.
\<close>

theorem server_limit_caps_collection_get:
  assumes "0 < m"
    and "m < length (drop offset (postFilter now rows ids older newer))"
    and "\<not> wroteHeader w"
  shows "(let res = take (effectiveLimit m limit)
                      (drop offset (sortBy (before srt) (postFilter now rows ids older newer)));
              w' = hCollectionGET m marshalBSO full now rows ids older newer srt limit offset w
          in length res = effectiveLimit m limit \<and> 0 < length res \<and> length res \<le> m
             \<and> code w' = 200
             \<and> body w' = body w
                  @ jsonArray (map (if full then marshalBSO else (\<lambda>b. jsonString (Id b))) res)
             \<and> sent w' ''X-Weave-Next-Offset'' = Some (showNat (offset + length res)))"
proof -
  let ?page = "drop offset (sortBy (before srt) (postFilter now rows ids older newer))"
  let ?l = "effectiveLimit m limit"
  have l: "0 < ?l" "?l \<le> m" using effectiveLimit_le [OF assms(1)] by simp_all
  have "length ?page = length (drop offset (postFilter now rows ids older newer))"
    by (simp add: length_sortBy)
  with assms(2) l have more: "?l < length ?page" by simp
  then have g: "GetBSOs now rows ids older newer srt ?l offset
                  = (take ?l ?page, Some (offset + ?l))"
    using l by (simp add: GetBSOs_def Let_def)
  have len: "length (take ?l ?page) = ?l" using more by simp
  show ?thesis
    unfolding hCollectionGET_def g Let_def
    using l len assms(3)
    by (simp add: Header_Set_def Write_def WriteHeader_def Let_def)
qed

theorem server_limit_caps_collection_get_witness:
  \<open>(0::nat) < 4 \<and> 4 < length (drop 0 (postFilter 145678900100 fiveBSOs None None None))
   \<and> \<not> wroteHeader NewRecorder
   \<and> code (hCollectionGET 4 marshalTestBSO False 145678900100 fiveBSOs None None None
              SortNewest 0 0 NewRecorder) = 200
   \<and> body (hCollectionGET 4 marshalTestBSO False 145678900100 fiveBSOs None None None
              SortNewest 0 0 NewRecorder)
       = ''["bid_4","bid_3","bid_2","bid_1"]''
   \<and> sent (hCollectionGET 4 marshalTestBSO False 145678900100 fiveBSOs None None None
              SortNewest 0 0 NewRecorder) ''X-Weave-Next-Offset'' = Some ''4''
   \<and> body (hCollectionGET 4 marshalTestBSO True 145678900100 fiveBSOs None None None
              SortNewest 0 0 NewRecorder)
       = ''[{"id":"bid_4","modified":1456789000.08,"payload":"some data","sortindex":4},''
         @ ''{"id":"bid_3","modified":1456789000.06,"payload":"some data","sortindex":3},''
         @ ''{"id":"bid_2","modified":1456789000.04,"payload":"some data","sortindex":2},''
         @ ''{"id":"bid_1","modified":1456789000.02,"payload":"some data","sortindex":1}]''
   \<and> sent (hCollectionGET 4 marshalTestBSO True 145678900100 fiveBSOs None None None
              SortNewest 0 0 NewRecorder) ''X-Weave-Next-Offset'' = Some ''4''\<close>
proof -
  have h1: "(0::nat) < 4" by simp
  have h2: "4 < length (drop 0 (postFilter 145678900100 fiveBSOs None None None))"
    unfolding postFilter_fiveBSOs by (simp add: length_fiveBSOs)
  have h3: "\<not> wroteHeader NewRecorder" by (simp add: NewRecorder_def)
  have b: "body NewRecorder = []" by (simp add: NewRecorder_def)
  have e: "effectiveLimit 4 0 = 4" by (simp add: effectiveLimit_def)
  note t = server_limit_caps_collection_get
             [OF h1 h2 h3, where srt = SortNewest and limit = 0 and marshalBSO = marshalTestBSO]
  show ?thesis
    using t [where full = False] t [where full = True] h2 h3
    by (simp add: Let_def e b postFilter_fiveBSOs sortBy_newest_fiveBSOs showNat_4
          jsonArray_def jsonString_def marshalTestBSO_four Id_mkBSO)
qed

text \<open>
  Without the two restrictions the statement fails. With the cap 4 and the same five
  BSOs, a request at offset 2 gets the three rows that are left and no
  \<open>X-Weave-Next-Offset\<close>, since no more rows remain, although the cap is smaller than the
  five rows that pass the filters. With the cap 0 a limit of 0 limits nothing: all five
  rows are returned.
\<close>

theorem server_limit_claim_counterexample:
  \<open>4 < length (postFilter 145678900100 fiveBSOs None None None)
   \<and> body (hCollectionGET 4 marshalTestBSO False 145678900100 fiveBSOs None None None
              SortNewest 0 2 NewRecorder)
       = ''["bid_2","bid_1","bid_0"]''
   \<and> sent (hCollectionGET 4 marshalTestBSO False 145678900100 fiveBSOs None None None
              SortNewest 0 2 NewRecorder) ''X-Weave-Next-Offset'' = None
   \<and> 0 < length (postFilter 145678900100 fiveBSOs None None None)
   \<and> body (hCollectionGET 0 marshalTestBSO False 145678900100 fiveBSOs None None None
              SortNewest 0 0 NewRecorder)
       = ''["bid_4","bid_3","bid_2","bid_1","bid_0"]''
   \<and> sent (hCollectionGET 0 marshalTestBSO False 145678900100 fiveBSOs None None None
              SortNewest 0 0 NewRecorder) ''X-Weave-Next-Offset'' = None\<close>
  by (simp add: hCollectionGET_def GetBSOs_def effectiveLimit_def postFilter_fiveBSOs
        sortBy_newest_fiveBSOs length_fiveBSOs NewRecorder_def Header_Set_def Write_def
        WriteHeader_def Let_def jsonArray_def jsonString_def Id_mkBSO)

section \<open>Updating a BSO\<close>

lemma validateBSO_ttl: "validateBSO bid p si (Some t) = [] \<Longrightarrow> 0 \<le> t"
  by (auto simp add: validateBSO_def split: if_splits option.splits)

lemma PutBSO_Inr_iff:
  "(\<exists>col' m. PutBSO now col bid p si ttl = Inr (col', m)) \<longleftrightarrow> validateBSO bid p si ttl = []"
  by (cases "validateBSO bid p si ttl") (simp_all add: PutBSO_def Let_def)

lemma PutBSO_other:
  "PutBSO now col bid' p si ttl = Inr (col', m) \<Longrightarrow> bid' \<noteq> bid \<Longrightarrow> col' bid = col bid"
  by (cases "validateBSO bid' p si ttl") (auto simp add: PutBSO_def Let_def)

lemma PutBSO_same:
  assumes "PutBSO now col bid p si ttl = Inr (col', m)"
    and "col bid = Some b" and "\<not> expired now b"
  shows "\<exists>b'. col' bid = Some b' \<and> \<not> expired now b' \<and> m = now \<and> Modified b' = now
           \<and> Payload b' = (case p of Some x \<Rightarrow> x | None \<Rightarrow> Payload b)
           \<and> SortIndex b' = (case si of Some i \<Rightarrow> Some i | None \<Rightarrow> SortIndex b)"
proof -
  from assms(1) have v: "validateBSO bid p si ttl = []"
    using PutBSO_Inr_iff by blast
  have t: "\<And>t. ttl = Some t \<Longrightarrow> 0 \<le> t" using v validateBSO_ttl by blast
  show ?thesis
    using assms v t
    by (cases ttl) (auto simp add: PutBSO_def Let_def expired_def)
qed

lemma PostBSOs_keeps:
  assumes "col bid = Some b" and "\<not> expired now b"
  shows "\<exists>b'. fst (PostBSOs now col inputs) bid = Some b' \<and> \<not> expired now b'
           \<and> ((\<forall>i \<in> set inputs. inId i = bid \<longrightarrow> inPayload i = None) \<longrightarrow> Payload b' = Payload b)
           \<and> ((\<forall>i \<in> set inputs. inId i = bid \<longrightarrow> inSortIndex i = None)
                \<longrightarrow> SortIndex b' = SortIndex b)"
  using assms
proof (induction inputs arbitrary: col b)
  case Nil
  then show ?case by simp
next
  case (Cons i rest)
  show ?case
  proof (cases "PutBSO now col (inId i) (inPayload i) (inSortIndex i) (inTTL i)")
    case (Inl es)
    then have "fst (PostBSOs now col (i # rest)) = fst (PostBSOs now col rest)"
      by (simp split: prod.splits)
    moreover from Cons.IH [where col = col and b = b] Cons.prems
    obtain b' where "fst (PostBSOs now col rest) bid = Some b'" "\<not> expired now b'"
      "(\<forall>i \<in> set rest. inId i = bid \<longrightarrow> inPayload i = None) \<longrightarrow> Payload b' = Payload b"
      "(\<forall>i \<in> set rest. inId i = bid \<longrightarrow> inSortIndex i = None) \<longrightarrow> SortIndex b' = SortIndex b"
      by blast
    ultimately show ?thesis by auto
  next
    case (Inr cm)
    obtain col1 m where cm: "cm = (col1, m)" by (cases cm)
    have put: "PutBSO now col (inId i) (inPayload i) (inSortIndex i) (inTTL i) = Inr (col1, m)"
      using Inr cm by simp
    have fst_eq: "fst (PostBSOs now col (i # rest)) = fst (PostBSOs now col1 rest)"
      using put by (simp split: prod.splits)
    have step: "\<exists>b1. col1 bid = Some b1 \<and> \<not> expired now b1
        \<and> ((inId i = bid \<longrightarrow> inPayload i = None) \<longrightarrow> Payload b1 = Payload b)
        \<and> ((inId i = bid \<longrightarrow> inSortIndex i = None) \<longrightarrow> SortIndex b1 = SortIndex b)"
    proof (cases "inId i = bid")
      case True
      from PutBSO_same [where col = col and bid = bid and b = b, OF put [unfolded True]] Cons.prems
      show ?thesis by (auto simp add: True)
    next
      case False
      from PutBSO_other [OF put False] Cons.prems show ?thesis by (simp add: False)
    qed
    then obtain b1 where b1: "col1 bid = Some b1" "\<not> expired now b1"
      "(inId i = bid \<longrightarrow> inPayload i = None) \<longrightarrow> Payload b1 = Payload b"
      "(inId i = bid \<longrightarrow> inSortIndex i = None) \<longrightarrow> SortIndex b1 = SortIndex b"
      by blast
    from Cons.IH [where col = col1 and b = b1] b1(1) b1(2)
    obtain b' where b': "fst (PostBSOs now col1 rest) bid = Some b'" "\<not> expired now b'"
      "(\<forall>i \<in> set rest. inId i = bid \<longrightarrow> inPayload i = None) \<longrightarrow> Payload b' = Payload b1"
      "(\<forall>i \<in> set rest. inId i = bid \<longrightarrow> inSortIndex i = None) \<longrightarrow> SortIndex b' = SortIndex b1"
      by blast
    show ?thesis
      unfolding fst_eq using b' b1(3,4) by auto
  qed
qed

lemma valid_updates:
  "validateBSO ''bso1'' None (Some 2) None = []"
  by (simp add: validateBSO_def validBsoId_def bsoIdChar_def isDigit_def)

text \<open>
  C6. For a BSO that exists (and is not expired), an update leaves every field unchanged
  that its input omits: a valid \<open>PutBSO\<close> succeeds, keeps the payload when none is
  given and the sort index when none is given, and stores the ones given; after a batch
  (\<open>PostBSOs\<close>) the BSO is still there, with its payload unchanged when no input for its
  id carries a payload, and its sort index unchanged when none carries a sort index.
\<close>

theorem absent_fields_stay_on_update:
  assumes "col bid = Some b" and "\<not> expired now b"
  shows "(validateBSO bid p si ttl = [] \<longrightarrow>
            (\<exists>col' b'. PutBSO now col bid p si ttl = Inr (col', now) \<and> col' bid = Some b'
               \<and> (p = None \<longrightarrow> Payload b' = Payload b)
               \<and> (si = None \<longrightarrow> SortIndex b' = SortIndex b)
               \<and> (\<forall>x. p = Some x \<longrightarrow> Payload b' = x)
               \<and> (\<forall>j. si = Some j \<longrightarrow> SortIndex b' = Some j)))
       \<and> (\<exists>b'. fst (PostBSOs now col inputs) bid = Some b'
             \<and> ((\<forall>i \<in> set inputs. inId i = bid \<longrightarrow> inPayload i = None)
                  \<longrightarrow> Payload b' = Payload b)
             \<and> ((\<forall>i \<in> set inputs. inId i = bid \<longrightarrow> inSortIndex i = None)
                  \<longrightarrow> SortIndex b' = SortIndex b))"
proof (intro conjI impI)
  assume v: "validateBSO bid p si ttl = []"
  then obtain col' m where put: "PutBSO now col bid p si ttl = Inr (col', m)"
    using PutBSO_Inr_iff by blast
  from PutBSO_same [where col = col and bid = bid and b = b, OF put] assms put
  show "\<exists>col' b'. PutBSO now col bid p si ttl = Inr (col', now) \<and> col' bid = Some b'
               \<and> (p = None \<longrightarrow> Payload b' = Payload b)
               \<and> (si = None \<longrightarrow> SortIndex b' = SortIndex b)
               \<and> (\<forall>x. p = Some x \<longrightarrow> Payload b' = x)
               \<and> (\<forall>j. si = Some j \<longrightarrow> SortIndex b' = Some j)"
    by auto
next
  from PostBSOs_keeps [where col = col and bid = bid and b = b and inputs = inputs] assms
  show "\<exists>b'. fst (PostBSOs now col inputs) bid = Some b'
             \<and> ((\<forall>i \<in> set inputs. inId i = bid \<longrightarrow> inPayload i = None)
                  \<longrightarrow> Payload b' = Payload b)
             \<and> ((\<forall>i \<in> set inputs. inId i = bid \<longrightarrow> inSortIndex i = None)
                  \<longrightarrow> SortIndex b' = SortIndex b)"
    by blast
qed

theorem absent_fields_stay_on_update_witness:
  "bookmarks ''bso1'' = Some (initialBSO ''bso1'') \<and> \<not> expired 145678900100 (initialBSO ''bso1'')
   \<and> validateBSO ''bso1'' None (Some 2) None = []
   \<and> (\<exists>col' b'. PutBSO 145678900100 bookmarks ''bso1'' None (Some 2) None = Inr (col', 145678900100)
         \<and> col' ''bso1'' = Some b' \<and> Payload b' = ''initial payload'' \<and> SortIndex b' = Some 2)
   \<and> map inPayload (filter (\<lambda>i. inId i = ''bso1'') updates) = [None]
   \<and> (\<exists>b'. fst (PostBSOs 145678900100 bookmarks updates) ''bso1'' = Some b'
         \<and> Payload b' = ''initial payload'')"
proof -
  have h1: "bookmarks ''bso1'' = Some (initialBSO ''bso1'')" by (simp add: bookmarks_def)
  have h2: "\<not> expired 145678900100 (initialBSO ''bso1'')"
    by (simp add: expired_def initialBSO_def)
  have h3: "\<forall>i \<in> set updates. inId i = ''bso1'' \<longrightarrow> inPayload i = None"
    by (simp add: updates_def)
  have p: "Payload (initialBSO ''bso1'') = ''initial payload''" by (simp add: initialBSO_def)
  have h4: "map inPayload (filter (\<lambda>i. inId i = ''bso1'') updates) = [None]"
    by (simp add: updates_def)
  show ?thesis
    using absent_fields_stay_on_update
            [where col = bookmarks and bid = "''bso1''" and b = "initialBSO ''bso1''"
               and now = 145678900100 and p = None and si = "Some 2" and ttl = None
               and inputs = updates]
          h1 h2 h3 h4 valid_updates
    by (auto simp add: p)
qed

end
